theory Spec2Isabelle
  imports Main "HOL-Library.AList"
begin

section \<open>JavaScript values used by the front-end\<close>

text \<open>
  The front-end is TypeScript running in a browser. Strings are modelled as \<open>string\<close>,
  non-negative integral numbers (sizes, percentages, indices, HTTP statuses, clock readings)
  as \<open>nat\<close>. A value that may be \<open>null\<close> or \<open>undefined\<close> is an \<open>option\<close>, \<open>None\<close>
  standing for the absent value. Exceptions are values of \<open>js_error\<close>; a computation
  that may throw returns \<open>js_error + 'a\<close>, \<open>Inl\<close> being the thrown error.
\<close>

datatype js_error = Error string | TypeError string | SyntaxError string

type_synonym 'a nullable = "'a option"

text \<open>Truthiness of a string (\<open>if (s)\<close>, \<open>!!s\<close>, \<open>s || d\<close>): every string but the empty one.\<close>

definition truthy :: "string \<Rightarrow> bool" where
  "truthy s = (s \<noteq> [])"

text \<open>Truthiness of \<open>string | null\<close>: \<open>null\<close> is falsy.\<close>

fun truthy_opt :: "string nullable \<Rightarrow> bool" where
  "truthy_opt None = False"
| "truthy_opt (Some s) = truthy s"

text \<open>
  A template literal \<open>`${v}`\<close> of a string that may be absent: the string itself, and the
  name of the absent value (\<open>null\<close> or \<open>undefined\<close>, the first argument) otherwise.
\<close>

fun template :: "string \<Rightarrow> string nullable \<Rightarrow> string" where
  "template absent None = absent"
| "template absent (Some s) = s"

text \<open>\<open>a || b\<close> on two strings that may be absent: \<open>a\<close> when it is truthy, and \<open>b\<close> otherwise.\<close>

definition or_else :: "string nullable \<Rightarrow> string nullable \<Rightarrow> string nullable" where
  "or_else a b = (if truthy_opt a then a else b)"

text \<open>\<open>a || d\<close> where \<open>d\<close> is a string: \<open>a\<close> when it is truthy, and \<open>d\<close> otherwise.\<close>

definition or_default :: "string nullable \<Rightarrow> string \<Rightarrow> string" where
  "or_default a d = (case a of None \<Rightarrow> d | Some s \<Rightarrow> if truthy s then s else d)"

text \<open>
  A value that is a string, \<open>null\<close> or \<open>undefined\<close>, where the two absent values must be
  told apart: the token of the client, which is tested for truthiness and rendered in a
  template literal. \<open>String_of\<close> is the conversion to a string that a template literal and
  \<open>localStorage.setItem\<close> apply.
\<close>

datatype js_string = Null | Undefined | Str string

fun truthy_js :: "js_string \<Rightarrow> bool" where
  "truthy_js Null = False"
| "truthy_js Undefined = False"
| "truthy_js (Str s) = truthy s"

fun String_of :: "js_string \<Rightarrow> string" where
  "String_of Null = ''null''"
| "String_of Undefined = ''undefined''"
| "String_of (Str s) = s"

text \<open>\<open>Number.prototype.toString()\<close> and \<open>`${n}`\<close> on a non-negative integer: its decimal digits.\<close>

definition digit_char :: "nat \<Rightarrow> char" where
  "digit_char d = ''0123456789'' ! (d mod 10)"

fun toString :: "nat \<Rightarrow> string" where
  "toString n = (if n < 10 then [digit_char n] else toString (n div 10) @ [digit_char (n mod 10)])"

declare toString.simps [simp del]

text \<open>
  \<open>String.prototype.trim()\<close>: white space is removed at both ends. Among the characters
  of \<open>string\<close> the white space of ECMAScript is tab, line feed, vertical tab, form feed,
  carriage return, space and the no-break space.
\<close>

definition is_space :: "char \<Rightarrow> bool" where
  "is_space ch = (ch = CHR 0x09 \<or> ch = CHR 0x0A \<or> ch = CHR 0x0B \<or> ch = CHR 0x0C
     \<or> ch = CHR 0x0D \<or> ch = CHR 0x20 \<or> ch = CHR 0xA0)"

definition trim :: "string \<Rightarrow> string" where
  "trim s = rev (dropWhile is_space (rev (dropWhile is_space s)))"

section \<open>Types of the application (src/types/index.ts)\<close>

text \<open>
  Field names carry a short prefix of their interface, since several interfaces share the
  names \<open>id\<close>, \<open>question\<close> and \<open>content\<close>.
\<close>

record Note =
  note_id :: string
  note_name :: string
  note_title :: "string option"
  note_filename :: "string option"
  note_summary :: "string option"
  note_content :: "string option"
  note_uploadedAt :: "string option"
  note_fileSize :: "nat option"
  note_fileType :: "string option"

datatype question_type = multiple_choice | short_answer | essay

datatype difficulty = easy | medium | hard

record Question =
  q_id :: string
  q_noteId :: string
  q_question :: string
  q_type :: question_type
  q_difficulty :: difficulty
  q_options :: "string list option"
  q_correctAnswer :: "string option"
  q_createdAt :: string

record Answer =
  a_question :: string
  a_answer :: string

datatype role = user | assistant

record ConversationMessage =
  m_id :: string
  m_role :: role
  m_content :: string
  m_timestamp :: string

text \<open>The browser's \<open>File\<close>: its name, its size in bytes and its MIME type.\<close>

record File =
  f_name :: string
  f_size :: nat
  f_type :: string

section \<open>The API client (src/lib/api.ts)\<close>

subsection \<open>Requests and responses\<close>

text \<open>
  A request body is either \<open>JSON.stringify\<close> of a value or a \<open>FormData\<close>. The JSON value is
  kept structured, so that the payload of a request can be read back.
\<close>

datatype json = JString string | JNumber nat | JArray "json list" | JObject "(string \<times> json) list"

datatype body = JSON_stringify json | FormData "(string \<times> File) list"

text \<open>The \<open>options\<close> argument of \<open>request\<close> (a \<open>RequestInit\<close>); an absent field is \<open>None\<close>.\<close>

record request_init =
  init_method :: "string option"
  init_headers :: "(string \<times> string) list option"
  init_body :: "body option"

text \<open>What \<open>fetch\<close> is called with.\<close>

record http_request =
  req_url :: string
  req_method :: "string option"
  req_headers :: "(string \<times> string) list"
  req_body :: "body option"

text \<open>
  A \<open>Response\<close>: its status, its status text and what \<open>response.json()\<close> settles to (the
  parsed body, or the error of a body that is not JSON). \<open>request<T>\<close> is generic in the
  type \<open>T\<close> of the parsed body, and so is the model. The browser defines \<open>response.ok\<close> as
  a status from 200 to 299.
\<close>

record 'a response =
  status :: nat
  statusText :: string
  json_body :: "js_error + 'a"

definition ok :: "'a response \<Rightarrow> bool" where
  "ok r = (200 \<le> status r \<and> status r \<le> 299)"

text \<open>The outcome of a \<open>fetch\<close>: the promise rejects (no response), or resolves to a response.\<close>

datatype 'a fetch_result = Rejected js_error | Resolved "'a response"

subsection \<open>Endpoints\<close>

definition BASE_URL :: string where
  "BASE_URL = ''https://learn-with-ai.getxoxo.space''"



definition notes_upload :: string where
  "notes_upload = ''/api/v1/notes/upload''"




definition notes_ask :: "string \<Rightarrow> string" where
  "notes_ask i = ''/api/v1/notes/'' @ i @ ''/ask''"

definition notes_generateQuestions :: "string \<Rightarrow> string" where
  "notes_generateQuestions i = ''/api/v1/notes/'' @ i @ ''/generate-questions''"

definition notes_submitAnswers :: "string \<Rightarrow> string" where
  "notes_submitAnswers i = ''/api/v1/notes/'' @ i @ ''/submit-answers''"

definition notes_conversations :: "string \<Rightarrow> string" where
  "notes_conversations i = ''/api/v1/notes/'' @ i @ ''/conversations''"


subsection \<open>The client and its methods\<close>

text \<open>
  \<open>token\<close> is the one field of \<open>LearnWithAIClient\<close>. The two other fields are the parts of
  the browser its methods act on: \<open>localStorage\<close>, and \<open>fetched\<close>, the requests given to
  \<open>fetch\<close> so far, oldest first. A method that awaits a \<open>fetch\<close> takes the outcome of that
  fetch as an argument and returns what its promise settles to, with the client after it.
\<close>

record client =
  token :: js_string
  localStorage :: "string \<rightharpoonup> string"
  fetched :: "http_request list"

definition constructor :: "(string \<rightharpoonup> string) \<Rightarrow> http_request list \<Rightarrow> client" where
  "constructor storage log =
     \<lparr>token = (case storage ''authToken'' of None \<Rightarrow> Null | Some item \<Rightarrow> Str item),
      localStorage = storage, fetched = log\<rparr>"

text \<open>The object spread \<open>{...a, ...b}\<close> on headers: a key of \<open>b\<close> overrides the same key of \<open>a\<close>.\<close>

definition spread :: "(string \<times> string) list \<Rightarrow> (string \<times> string) list \<Rightarrow> (string \<times> string) list" where
  "spread a b = fold (\<lambda>(k, v). AList.update k v) b a"

definition request ::
  "string \<Rightarrow> request_init \<Rightarrow> 'a fetch_result \<Rightarrow> client \<Rightarrow> (js_error + 'a) \<times> client" where
  "request endpoint options outcome c =
     (let url = BASE_URL @ endpoint;
          headers = spread [(''Content-Type'', ''application/json'')]
                      (case init_headers options of None \<Rightarrow> [] | Some h \<Rightarrow> h);
          headers = (if truthy_js (token c)
                     then AList.update ''Authorization'' (''Bearer '' @ String_of (token c)) headers
                     else headers);
          c' = c\<lparr>fetched := fetched c @
                 [\<lparr>req_url = url, req_method = init_method options,
                   req_headers = headers, req_body = init_body options\<rparr>]\<rparr>
      in case outcome of
           Rejected e \<Rightarrow> (Inl e, c')
         | Resolved response \<Rightarrow>
             if \<not> ok response
             then (Inl (Error (''API Error: '' @ toString (status response) @ '' '' @ statusText response)), c')
             else (json_body response, c'))"





definition logout :: "client \<Rightarrow> client" where
  "logout c = c\<lparr>token := Null, localStorage := (localStorage c)(''authToken'' := None)\<rparr>"

text \<open>
  \<open>uploadNote\<close> does not go through \<open>request\<close>: it calls \<open>fetch\<close> itself, with the one header
  \<open>Authorization: `Bearer ${this.token}`\<close>, whatever the token is.
\<close>

definition uploadNote :: "File \<Rightarrow> 'a fetch_result \<Rightarrow> client \<Rightarrow> (js_error + 'a) \<times> client" where
  "uploadNote f outcome c =
     (let formData = FormData [(''file'', f)];
          c' = c\<lparr>fetched := fetched c @
                 [\<lparr>req_url = BASE_URL @ notes_upload, req_method = Some ''POST'',
                   req_headers = [(''Authorization'', ''Bearer '' @ String_of (token c))],
                   req_body = Some formData\<rparr>]\<rparr>
      in case outcome of
           Rejected e \<Rightarrow> (Inl e, c')
         | Resolved response \<Rightarrow>
             if \<not> ok response
             then (Inl (Error (''Upload failed: '' @ toString (status response))), c')
             else (json_body response, c'))"

definition no_options :: request_init where
  "no_options = \<lparr>init_method = None, init_headers = None, init_body = None\<rparr>"




definition askQuestion ::
  "string \<Rightarrow> string \<Rightarrow> 'a fetch_result \<Rightarrow> client \<Rightarrow> (js_error + 'a) \<times> client" where
  "askQuestion noteId question =
     request (notes_ask noteId)
       \<lparr>init_method = Some ''POST'', init_headers = None,
        init_body = Some (JSON_stringify (JObject [(''question'', JString question)]))\<rparr>"

definition generateQuestions ::
  "string \<Rightarrow> string \<Rightarrow> nat \<Rightarrow> string \<Rightarrow> 'a fetch_result \<Rightarrow> client \<Rightarrow> (js_error + 'a) \<times> client" where
  "generateQuestions noteId questionType numberOfQuestions difficulty =
     request (notes_generateQuestions noteId)
       \<lparr>init_method = Some ''POST'', init_headers = None,
        init_body = Some (JSON_stringify (JObject
          [(''question_type'', JString questionType),
           (''number_of_questions'', JNumber numberOfQuestions),
           (''difficulty'', JString difficulty)]))\<rparr>"

definition answer_json :: "Answer \<Rightarrow> json" where
  "answer_json a = JObject [(''question'', JString (a_question a)), (''answer'', JString (a_answer a))]"

definition submitAnswers ::
  "string \<Rightarrow> Answer list \<Rightarrow> 'a fetch_result \<Rightarrow> client \<Rightarrow> (js_error + 'a) \<times> client" where
  "submitAnswers noteId answers =
     request (notes_submitAnswers noteId)
       \<lparr>init_method = Some ''POST'', init_headers = None,
        init_body = Some (JSON_stringify (JObject [(''answers'', JArray (map answer_json answers))]))\<rparr>"

definition getConversations ::
  "string \<Rightarrow> 'a fetch_result \<Rightarrow> client \<Rightarrow> (js_error + 'a) \<times> client" where
  "getConversations noteId = request (notes_conversations noteId) no_options"


definition isAuthenticated :: "client \<Rightarrow> bool" where
  "isAuthenticated c = truthy_js (token c)"

section \<open>Notifications\<close>

text \<open>
  Every component reports to the user through \<open>toast\<close>. A component's state records the
  toasts it has emitted, oldest first.
\<close>

record toast =
  t_title :: string
  t_description :: string
  t_variant :: "string option"

section \<open>The quiz (QuizInterface, src/components/UploadModal.tsx)\<close>

text \<open>
  The bodies the quiz reads from its two requests. The component casts each response to
  \<open>any\<close> and tests the fields it reads, so every field may be absent, and the response
  itself may be \<open>null\<close>.
\<close>

record generate_response =
  gr_questions :: "Question list option"

record graded_answer =
  ga_isCorrect :: "bool option"

record submit_response =
  sr_score :: "nat option"
  sr_gradedAnswers :: "graded_answer list option"

record quiz_settings =
  qs_type :: string
  qs_difficulty :: string
  qs_count :: nat

text \<open>The literals \<open>'setup' | 'taking' | 'results'\<close> of \<open>quizState\<close>.\<close>

datatype quiz_state = state_setup | state_taking | state_results

text \<open>
  The state of the component: one field for each \<open>useState\<close>, and the toasts emitted.
  \<open>quiz_results\<close> is the state variable \<open>results\<close>.
\<close>

record QuizInterface =
  questions :: "Question list"
  currentQuestionIndex :: nat
  answers :: "Answer list"
  selectedAnswer :: string
  quiz_isLoading :: bool
  quizState :: quiz_state
  quiz_results :: "submit_response nullable"
  quizSettings :: quiz_settings
  quiz_toasts :: "toast list"

definition QuizInterface_initial :: QuizInterface where
  "QuizInterface_initial =
     \<lparr>questions = [], currentQuestionIndex = 0, answers = [], selectedAnswer = [],
      quiz_isLoading = False, quizState = state_setup, quiz_results = None,
      quizSettings = \<lparr>qs_type = ''multiple_choice'', qs_difficulty = ''medium'', qs_count = 5\<rparr>,
      quiz_toasts = []\<rparr>"

text \<open>
  A handler that awaits a request takes the outcome of the fetch and runs to its end: the
  part before the \<open>await\<close>, then \<open>try\<close>, \<open>catch\<close> and \<open>finally\<close> in the order of the source.
\<close>

definition generateQuiz ::
  "Note \<Rightarrow> generate_response nullable fetch_result \<Rightarrow> QuizInterface \<times> client
     \<Rightarrow> QuizInterface \<times> client" where
  "generateQuiz note outcome = (\<lambda>(q, c).
     let q1 = q\<lparr>quiz_isLoading := True\<rparr>;
         (r, c') = generateQuestions (note_id note) (qs_type (quizSettings q))
                     (qs_count (quizSettings q)) (qs_difficulty (quizSettings q)) outcome c;
         attempt = (case r of
                  Inl e \<Rightarrow> Inl e
                | Inr None \<Rightarrow> Inl (TypeError ''Cannot read properties of null (reading questions)'')
                | Inr (Some response) \<Rightarrow>
                    Inr (q1\<lparr>questions := (case gr_questions response of None \<Rightarrow> [] | Some qs \<Rightarrow> qs),
                            quizState := state_taking, currentQuestionIndex := 0, answers := [],
                            selectedAnswer := []\<rparr>));
         q2 = (case attempt of
                 Inr q' \<Rightarrow> q'
               | Inl e \<Rightarrow> q1\<lparr>quiz_toasts := quiz_toasts q1 @
                    [\<lparr>t_title = ''Failed to generate quiz'',
                      t_description = ''Please try again with different settings.'',
                      t_variant = Some ''destructive''\<rparr>]\<rparr>)
     in (q2\<lparr>quiz_isLoading := False\<rparr>, c'))"

definition handleAnswerSelect :: "string \<Rightarrow> QuizInterface \<Rightarrow> QuizInterface" where
  "handleAnswerSelect a q = q\<lparr>selectedAnswer := a\<rparr>"

definition submitQuiz ::
  "Note \<Rightarrow> submit_response nullable fetch_result \<Rightarrow> Answer list \<Rightarrow> QuizInterface \<times> client
     \<Rightarrow> QuizInterface \<times> client" where
  "submitQuiz note outcome finalAnswers = (\<lambda>(q, c).
     let q1 = q\<lparr>quiz_isLoading := True\<rparr>;
         (r, c') = submitAnswers (note_id note) finalAnswers outcome c;
         q2 = (case r of
                 Inr response \<Rightarrow> q1\<lparr>quiz_results := response, quizState := state_results\<rparr>
               | Inl e \<Rightarrow> q1\<lparr>quiz_toasts := quiz_toasts q1 @
                    [\<lparr>t_title = ''Failed to submit quiz'',
                      t_description = ''Please try again.'',
                      t_variant = Some ''destructive''\<rparr>]\<rparr>)
     in (q2\<lparr>quiz_isLoading := False\<rparr>, c'))"

text \<open>
  \<open>questions[currentQuestionIndex].question\<close> throws a \<open>TypeError\<close> when the index is not
  one of the list. \<open>questions.length - 1\<close> is \<open>-1\<close> on the empty list, so the comparison
  is made on integers. The outcome is that of the submission, read only by the branch that
  submits.
\<close>

definition handleNextQuestion ::
  "Note \<Rightarrow> submit_response nullable fetch_result \<Rightarrow> QuizInterface \<times> client
     \<Rightarrow> js_error + QuizInterface \<times> client" where
  "handleNextQuestion note outcome = (\<lambda>(q, c).
     if \<not> truthy (selectedAnswer q) then Inr (q, c)
     else if \<not> currentQuestionIndex q < length (questions q)
     then Inl (TypeError ''Cannot read properties of undefined (reading question)'')
     else
       let newAnswer = \<lparr>a_question = q_question (questions q ! currentQuestionIndex q),
                        a_answer = selectedAnswer q\<rparr>;
           updatedAnswers = answers q @ [newAnswer];
           q1 = q\<lparr>answers := updatedAnswers\<rparr>
       in if int (currentQuestionIndex q) < int (length (questions q)) - 1
          then Inr (q1\<lparr>currentQuestionIndex := currentQuestionIndex q + 1, selectedAnswer := []\<rparr>, c)
          else Inr (submitQuiz note outcome updatedAnswers (q1, c)))"

definition resetQuiz :: "QuizInterface \<Rightarrow> QuizInterface" where
  "resetQuiz q = q\<lparr>quizState := state_setup, questions := [], answers := [], currentQuestionIndex := 0,
                   selectedAnswer := [], quiz_results := None\<rparr>"

text \<open>\<open>currentQuestion\<close>, the question on display: \<open>questions[currentQuestionIndex]\<close>.\<close>

definition currentQuestion :: "QuizInterface \<Rightarrow> Question option" where
  "currentQuestion q =
     (if currentQuestionIndex q < length (questions q)
      then Some (questions q ! currentQuestionIndex q) else None)"

text \<open>
  A user taking the quiz: at each step the user enters an answer and invokes the advance
  action. A step is the answer entered and the outcome of the submission, should that
  advance submit. An uncaught error ends the run.
\<close>

fun advance ::
  "Note \<Rightarrow> (string \<times> submit_response nullable fetch_result) list \<Rightarrow> QuizInterface \<times> client
     \<Rightarrow> js_error + QuizInterface \<times> client" where
  "advance note [] s = Inr s"
| "advance note ((a, outcome) # steps) (q, c) =
     (case handleNextQuestion note outcome (handleAnswerSelect a q, c) of
        Inl e \<Rightarrow> Inl e
      | Inr s' \<Rightarrow> advance note steps s')"

text \<open>The text of the question on display at each step of such a run.\<close>

fun displayed ::
  "Note \<Rightarrow> (string \<times> submit_response nullable fetch_result) list \<Rightarrow> QuizInterface \<times> client
     \<Rightarrow> string list" where
  "displayed note [] s = []"
| "displayed note ((a, outcome) # steps) (q, c) =
     (case currentQuestion q of
        None \<Rightarrow> []
      | Some shown \<Rightarrow>
          q_question shown #
            (case handleNextQuestion note outcome (handleAnswerSelect a q, c) of
               Inl e \<Rightarrow> []
             | Inr s' \<Rightarrow> displayed note steps s'))"

section \<open>The chat (src/components/ChatInterface.tsx)\<close>

text \<open>The bodies the chat reads from its two requests, every field possibly absent.\<close>

record ask_response =
  ask_answer :: "string option"

record conversations_response =
  cr_messages :: "ConversationMessage list option"

text \<open>A reading of the clock: \<open>Date.now()\<close> and \<open>new Date().toISOString()\<close>.\<close>

record clock =
  now :: nat
  toISOString :: string

text \<open>
  The state of the component: one field for each \<open>useState\<close>, the toasts emitted and the
  lines written with \<open>console.log\<close>.
\<close>

record ChatInterface =
  messages :: "ConversationMessage list"
  inputValue :: string
  chat_isLoading :: bool
  chat_toasts :: "toast list"
  chat_console :: "string list"

definition ChatInterface_initial :: ChatInterface where
  "ChatInterface_initial =
     \<lparr>messages = [], inputValue = [], chat_isLoading = False, chat_toasts = [], chat_console = []\<rparr>"

definition welcomeMessage :: "Note \<Rightarrow> clock \<Rightarrow> ConversationMessage" where
  "welcomeMessage note t =
     \<lparr>m_id = ''welcome'', m_role = assistant,
      m_content = ''Hi! I'm your AI study assistant. I've analyzed your note '' @ [CHR 0x22]
        @ template ''undefined'' (or_else (note_title note) (note_filename note)) @ [CHR 0x22]
        @ '' and I'm ready to help you understand the material. What would you like to know?'',
      m_timestamp = toISOString t\<rparr>"

text \<open>
  \<open>loadConversations\<close>, run to its end with the outcome of its request. The history
  replaces the transcript when the response and its \<open>messages\<close> are truthy (an array is,
  also the empty one); a failure is logged and changes nothing.
\<close>

definition loadConversations ::
  "Note \<Rightarrow> conversations_response nullable fetch_result \<Rightarrow> ChatInterface \<times> client
     \<Rightarrow> ChatInterface \<times> client" where
  "loadConversations note outcome = (\<lambda>(ch, c).
     let (r, c') = getConversations (note_id note) outcome c
     in case r of
          Inl e \<Rightarrow> (ch\<lparr>chat_console := chat_console ch @ [''No existing conversations'']\<rparr>, c')
        | Inr None \<Rightarrow> (ch, c')
        | Inr (Some response) \<Rightarrow>
            (case cr_messages response of
               None \<Rightarrow> (ch, c')
             | Some history \<Rightarrow> (ch\<lparr>messages := history\<rparr>, c')))"

text \<open>The \<open>setMessages\<close> of the mount effect: the transcript becomes the welcome message.\<close>

definition seed_welcome :: "Note \<Rightarrow> clock \<Rightarrow> ChatInterface \<Rightarrow> ChatInterface" where
  "seed_welcome note t ch = ch\<lparr>messages := [welcomeMessage note t]\<rparr>"

text \<open>
  The mount effect calls \<open>loadConversations()\<close>, which runs up to its \<open>await\<close> (the request
  is on its way) and returns a promise; the effect then seeds the welcome message and
  ends. The rest of \<open>loadConversations\<close> runs when the request has settled, which is
  always after the effect has ended. So the state changes of the mount are the seed, then
  those of \<open>loadConversations\<close>.
\<close>

definition useEffect_mount ::
  "Note \<Rightarrow> clock \<Rightarrow> conversations_response nullable fetch_result \<Rightarrow> ChatInterface \<times> client
     \<Rightarrow> ChatInterface \<times> client" where
  "useEffect_mount note t outcome = (\<lambda>(ch, c). loadConversations note outcome (seed_welcome note t ch, c))"

text \<open>
  \<open>handleSendMessage\<close> in its two parts: up to the \<open>await\<close> (the optimistic user message),
  and from the settled request on (\<open>try\<close>, \<open>catch\<close>, \<open>finally\<close>). The second part has the
  \<open>inputValue\<close> the handler was called with, and its own reading of the clock.
\<close>

definition handleSendMessage_begin :: "clock \<Rightarrow> ChatInterface \<Rightarrow> ChatInterface" where
  "handleSendMessage_begin t ch =
     (let userMessage = \<lparr>m_id = toString (now t), m_role = user, m_content = inputValue ch,
                          m_timestamp = toISOString t\<rparr>
      in ch\<lparr>messages := messages ch @ [userMessage], inputValue := [], chat_isLoading := True\<rparr>)"

definition fallback_answer :: string where
  "fallback_answer = ''I apologize, but I couldn't generate a response. Please try rephrasing your question.''"

definition apology :: string where
  "apology = ''I'm sorry, I encountered an error while processing your question. Please try again.''"

definition handleSendMessage_settle ::
  "Note \<Rightarrow> string \<Rightarrow> clock \<Rightarrow> ask_response nullable fetch_result \<Rightarrow> ChatInterface \<times> client
     \<Rightarrow> ChatInterface \<times> client" where
  "handleSendMessage_settle note question t outcome = (\<lambda>(ch, c).
     let (r, c') = askQuestion (note_id note) question outcome c;
         attempt = (case r of
                  Inl e \<Rightarrow> Inl e
                | Inr None \<Rightarrow> Inl (TypeError ''Cannot read properties of null (reading answer)'')
                | Inr (Some response) \<Rightarrow>
                    Inr \<lparr>m_id = toString (now t + 1), m_role = assistant,
                         m_content = or_default (ask_answer response) fallback_answer,
                         m_timestamp = toISOString t\<rparr>);
         ch1 = (case attempt of
                  Inr aiMessage \<Rightarrow> ch\<lparr>messages := messages ch @ [aiMessage]\<rparr>
                | Inl e \<Rightarrow>
                    ch\<lparr>chat_toasts := chat_toasts ch @
                          [\<lparr>t_title = ''Failed to get AI response'',
                            t_description = ''Please try asking your question again.'',
                            t_variant = Some ''destructive''\<rparr>],
                       messages := messages ch @
                          [\<lparr>m_id = toString (now t + 1), m_role = assistant, m_content = apology,
                            m_timestamp = toISOString t\<rparr>]\<rparr>)
     in (ch1\<lparr>chat_isLoading := False\<rparr>, c'))"

definition handleSendMessage ::
  "Note \<Rightarrow> clock \<Rightarrow> clock \<Rightarrow> ask_response nullable fetch_result \<Rightarrow> ChatInterface \<times> client
     \<Rightarrow> ChatInterface \<times> client" where
  "handleSendMessage note t t' outcome = (\<lambda>(ch, c).
     if \<not> truthy (trim (inputValue ch)) \<or> chat_isLoading ch then (ch, c)
     else handleSendMessage_settle note (inputValue ch) t' outcome (handleSendMessage_begin t ch, c))"

section \<open>The upload dialog (UploadModal, src/components/UploadModal.tsx)\<close>

text \<open>The literals \<open>'idle' | 'uploading' | 'success' | 'error'\<close> of \<open>uploadStatus\<close>.\<close>

datatype upload_status = status_idle | status_uploading | status_success | status_error

text \<open>
  The state of the component: one field for each \<open>useState\<close> (\<open>selectedFile\<close> is the state
  variable \<open>file\<close>), the toasts emitted, whether the interval \<open>progressInterval\<close> is running,
  and whether the timeout that closes the dialog is pending.
\<close>

record UploadModal =
  selectedFile :: "File option"
  isUploading :: bool
  uploadProgress :: nat
  uploadStatus :: upload_status
  upload_toasts :: "toast list"
  progressInterval :: bool
  closeTimeout :: bool

definition UploadModal_initial :: UploadModal where
  "UploadModal_initial =
     \<lparr>selectedFile = None, isUploading = False, uploadProgress = 0, uploadStatus = status_idle,
      upload_toasts = [], progressInterval = False, closeTimeout = False\<rparr>"

definition maxSize :: nat where
  "maxSize = 20 * 1024 * 1024"

definition allowedTypes :: "string list" where
  "allowedTypes =
     [''application/pdf'',
      ''application/vnd.openxmlformats-officedocument.wordprocessingml.document'',
      ''text/plain'',
      ''text/markdown'']"

definition handleFileSelect :: "File \<Rightarrow> UploadModal \<Rightarrow> UploadModal" where
  "handleFileSelect file m =
     (if f_size file > maxSize
      then m\<lparr>upload_toasts := upload_toasts m @
             [\<lparr>t_title = ''File too large'',
               t_description = ''Please select a file smaller than 20MB.'',
               t_variant = Some ''destructive''\<rparr>]\<rparr>
      else if f_type file \<notin> set allowedTypes
      then m\<lparr>upload_toasts := upload_toasts m @
             [\<lparr>t_title = ''Unsupported file type'',
               t_description = ''Please upload a PDF, DOCX, TXT, or MD file.'',
               t_variant = Some ''destructive''\<rparr>]\<rparr>
      else m\<lparr>selectedFile := Some file, uploadStatus := status_idle\<rparr>)"

text \<open>
  \<open>handleUpload\<close> in its parts: up to the \<open>await\<close> (the interval is started), a run of the
  interval's callback, and from the settled upload on (\<open>try\<close>, \<open>catch\<close>, \<open>finally\<close>).
  Both branches clear the interval before anything else, so no callback runs afterwards.
\<close>

definition handleUpload_begin :: "UploadModal \<Rightarrow> UploadModal" where
  "handleUpload_begin m =
     m\<lparr>isUploading := True, uploadStatus := status_uploading, uploadProgress := 0,
       progressInterval := True\<rparr>"

definition progress_tick :: "UploadModal \<Rightarrow> UploadModal" where
  "progress_tick m =
     (if progressInterval m then m\<lparr>uploadProgress := min (uploadProgress m + 10) 90\<rparr> else m)"

definition handleUpload_settle ::
  "File \<Rightarrow> 'a fetch_result \<Rightarrow> UploadModal \<times> client \<Rightarrow> UploadModal \<times> client" where
  "handleUpload_settle file outcome = (\<lambda>(m, c).
     let (r, c') = uploadNote file outcome c;
         m1 = (case r of
                 Inr response \<Rightarrow>
                   m\<lparr>progressInterval := False, uploadProgress := 100, uploadStatus := status_success,
                     upload_toasts := upload_toasts m @
                       [\<lparr>t_title = ''Upload successful!'',
                         t_description = ''Your note has been processed and AI summary generated.'',
                         t_variant = None\<rparr>],
                     closeTimeout := True\<rparr>
               | Inl e \<Rightarrow>
                   m\<lparr>progressInterval := False, uploadStatus := status_error,
                     upload_toasts := upload_toasts m @
                       [\<lparr>t_title = ''Upload failed'',
                         t_description = ''Please try again or contact support if the problem persists.'',
                         t_variant = Some ''destructive''\<rparr>]\<rparr>)
     in (m1\<lparr>isUploading := False\<rparr>, c'))"

text \<open>An upload attempt during which the interval fires \<open>ticks\<close> times.\<close>

definition handleUpload ::
  "nat \<Rightarrow> 'a fetch_result \<Rightarrow> UploadModal \<times> client \<Rightarrow> UploadModal \<times> client" where
  "handleUpload ticks outcome = (\<lambda>(m, c).
     case selectedFile m of
       None \<Rightarrow> (m, c)
     | Some file \<Rightarrow>
         handleUpload_settle file outcome ((progress_tick ^^ ticks) (handleUpload_begin m), c))"

text \<open>
  The states of the dialog in the course of that attempt: after the start and after each
  run of the interval (the upload is pending in all of these), and last the state once
  the upload has settled.
\<close>

definition pending_states :: "nat \<Rightarrow> UploadModal \<Rightarrow> UploadModal list" where
  "pending_states ticks m = map (\<lambda>k. (progress_tick ^^ k) (handleUpload_begin m)) [0..<Suc ticks]"

definition attempt_states ::
  "nat \<Rightarrow> 'a fetch_result \<Rightarrow> UploadModal \<times> client \<Rightarrow> UploadModal list" where
  "attempt_states ticks outcome = (\<lambda>(m, c).
     case selectedFile m of
       None \<Rightarrow> []
     | Some file \<Rightarrow> pending_states ticks m @ [fst (handleUpload ticks outcome (m, c))])"

definition reset :: "UploadModal \<Rightarrow> UploadModal" where
  "reset m = m\<lparr>selectedFile := None, uploadProgress := 0, uploadStatus := status_idle\<rparr>"

section \<open>Example inputs\<close>

text \<open>A note, a logged-in client, readings of the clock, responses and files to run the model on.\<close>

definition example_note :: Note where
  "example_note =
     \<lparr>note_id = ''n1'', note_name = ''algebra.pdf'', note_title = Some ''Algebra'',
      note_filename = Some ''algebra.pdf'', note_summary = None, note_content = None,
      note_uploadedAt = None, note_fileSize = None, note_fileType = None\<rparr>"

definition example_client :: client where
  "example_client = constructor [''authToken'' \<mapsto> ''abc''] []"

definition example_clock :: clock where
  "example_clock = \<lparr>now = 1700000000000, toISOString = ''2023-11-14T22:13:20.000Z''\<rparr>"

definition example_later :: clock where
  "example_later = \<lparr>now = 1700000002000, toISOString = ''2023-11-14T22:13:22.000Z''\<rparr>"

definition example_unavailable :: "'a response" where
  "example_unavailable =
     \<lparr>status = 503, statusText = ''Service Unavailable'',
      json_body = Inl (SyntaxError ''Unexpected token'')\<rparr>"

definition example_questions :: "Question list" where
  "example_questions =
     [\<lparr>q_id = ''q1'', q_noteId = ''n1'', q_question = ''What is a group?'', q_type = short_answer,
       q_difficulty = easy, q_options = None, q_correctAnswer = None, q_createdAt = ''2024-01-01''\<rparr>,
      \<lparr>q_id = ''q2'', q_noteId = ''n1'', q_question = ''Is 0 a unit?'', q_type = multiple_choice,
       q_difficulty = medium, q_options = Some [''yes'', ''no''], q_correctAnswer = Some ''no'',
       q_createdAt = ''2024-01-01''\<rparr>]"

definition example_generated :: "generate_response nullable response" where
  "example_generated =
     \<lparr>status = 200, statusText = ''OK'',
      json_body = Inr (Some \<lparr>gr_questions = Some example_questions\<rparr>)\<rparr>"

definition example_graded :: "submit_response nullable response" where
  "example_graded =
     \<lparr>status = 200, statusText = ''OK'',
      json_body = Inr (Some \<lparr>sr_score = Some 1,
        sr_gradedAnswers = Some [\<lparr>ga_isCorrect = Some True\<rparr>, \<lparr>ga_isCorrect = Some False\<rparr>]\<rparr>)\<rparr>"

text \<open>Two answers, each with the outcome its advance would meet if it submitted.\<close>

definition example_steps :: "(string \<times> submit_response nullable fetch_result) list" where
  "example_steps =
     [(''a set with an operation'', Resolved example_unavailable), (''no'', Resolved example_graded)]"

definition example_taking :: QuizInterface where
  "example_taking = QuizInterface_initial\<lparr>questions := example_questions, quizState := state_taking\<rparr>"

text \<open>The same quiz on its last question, the first answer taken.\<close>

definition example_last :: QuizInterface where
  "example_last = example_taking\<lparr>currentQuestionIndex := 1,
     answers := [\<lparr>a_question = ''What is a group?'', a_answer = ''a set with an operation''\<rparr>]\<rparr>"

definition example_history :: "ConversationMessage list" where
  "example_history =
     [\<lparr>m_id = ''1'', m_role = user, m_content = ''What is a group?'',
       m_timestamp = ''2023-11-01T10:00:00.000Z''\<rparr>,
      \<lparr>m_id = ''2'', m_role = assistant, m_content = ''A set with an associative operation.'',
       m_timestamp = ''2023-11-01T10:00:03.000Z''\<rparr>]"

definition example_conversations :: "conversations_response nullable response" where
  "example_conversations =
     \<lparr>status = 200, statusText = ''OK'',
      json_body = Inr (Some \<lparr>cr_messages = Some example_history\<rparr>)\<rparr>"

text \<open>A history of one message.\<close>

definition example_short_conversations :: "conversations_response nullable response" where
  "example_short_conversations =
     \<lparr>status = 200, statusText = ''OK'',
      json_body = Inr (Some \<lparr>cr_messages = Some [hd example_history]\<rparr>)\<rparr>"

definition example_answer :: "ask_response nullable response" where
  "example_answer =
     \<lparr>status = 200, statusText = ''OK'',
      json_body = Inr (Some \<lparr>ask_answer = Some ''A set with an associative operation.''\<rparr>)\<rparr>"


definition example_asking :: ChatInterface where
  "example_asking = ChatInterface_initial\<lparr>inputValue := ''What is a group?''\<rparr>"

text \<open>An input of two spaces: not empty, and blank.\<close>

definition example_blank :: ChatInterface where
  "example_blank = ChatInterface_initial\<lparr>inputValue := ''  ''\<rparr>"

definition example_file :: File where
  "example_file = \<lparr>f_name = ''algebra.pdf'', f_size = 4096, f_type = ''application/pdf''\<rparr>"

definition example_large :: File where
  "example_large = \<lparr>f_name = ''scan.pdf'', f_size = 20971521, f_type = ''application/pdf''\<rparr>"

definition example_image :: File where
  "example_image = \<lparr>f_name = ''board.png'', f_size = 4096, f_type = ''image/png''\<rparr>"



definition example_uploaded :: "unit response" where
  "example_uploaded = \<lparr>status = 200, statusText = ''OK'', json_body = Inr ()\<rparr>"

section \<open>Properties of the API client\<close>

lemma fetched_request:
  "fetched (snd (request ep opts outcome c)) = fetched c @
     [\<lparr>req_url = BASE_URL @ ep, req_method = init_method opts,
       req_headers =
         (let h = spread [(''Content-Type'', ''application/json'')]
                    (case init_headers opts of None \<Rightarrow> [] | Some h \<Rightarrow> h)
          in if truthy_js (token c)
             then AList.update ''Authorization'' (''Bearer '' @ String_of (token c)) h
             else h),
       req_body = init_body opts\<rparr>]"
  by (simp add: request_def Let_def split: fetch_result.splits)







text \<open>What holds of \<open>logout\<close>: the token and its stored copy are gone and nothing is fetched.\<close>

lemma logout_clears_token:
  "token (logout c) = Null \<and> localStorage (logout c) ''authToken'' = None
     \<and> fetched (logout c) = fetched c"
  by (simp add: logout_def)

lemma logout_not_authenticated:
  "\<not> isAuthenticated (logout c)"
  by (simp add: logout_def isAuthenticated_def)

text \<open>
  After \<open>logout\<close>, a call that goes through \<open>request\<close> with no headers of its own (every
  method but \<open>uploadNote\<close>) sends the content type and no \<open>Authorization\<close> header.
\<close>

lemma request_after_logout:
  "init_headers opts = None \<Longrightarrow>
   req_headers (last (fetched (snd (request ep opts outcome (logout c))))) =
     [(''Content-Type'', ''application/json'')]"
  by (simp add: fetched_request logout_def spread_def)

text \<open>
  Claim C1: after \<open>logout()\<close> the token is cleared without a network call,
  \<open>isAuthenticated()\<close> is false, and every following protected call, \<open>uploadNote\<close>
  included, carries no \<open>Authorization\<close> header. The code does not do this for \<open>uploadNote\<close>:
  the one request it sends after a logout carries the header \<open>Authorization: Bearer null\<close>.
\<close>

theorem uploadNote_after_logout:
  "fetched (snd (uploadNote f outcome (logout c))) = fetched c @
     [\<lparr>req_url = BASE_URL @ ''/api/v1/notes/upload'', req_method = Some ''POST'',
       req_headers = [(''Authorization'', ''Bearer null'')],
       req_body = Some (FormData [(''file'', f)])\<rparr>]"
  by (simp add: uploadNote_def logout_def notes_upload_def Let_def split: fetch_result.splits)

theorem uploadNote_after_logout_witness:
  "map req_headers (fetched (snd (uploadNote example_file (Resolved example_uploaded)
      (logout example_client)))) = [[(''Authorization'', ''Bearer null'')]]"
  using uploadNote_after_logout [where f = example_file and outcome = "Resolved example_uploaded"
      and c = example_client]
  by (simp add: example_client_def constructor_def)




section \<open>Properties of the quiz\<close>

lemma submitQuiz_fields:
  "questions (fst (submitQuiz nt outcome fa (q, c))) = questions q"
  "answers (fst (submitQuiz nt outcome fa (q, c))) = answers q"
  "currentQuestionIndex (fst (submitQuiz nt outcome fa (q, c))) = currentQuestionIndex q"
  by (simp_all add: submitQuiz_def Let_def split: prod.splits sum.splits)

lemma fetched_submitQuiz:
  "fetched (snd (submitQuiz nt outcome fa (q, c))) =
     fetched (snd (submitAnswers (note_id nt) fa outcome c))"
  by (simp add: submitQuiz_def Let_def split: prod.splits sum.splits)

lemma fetched_submitAnswers:
  "\<exists>req. fetched (snd (submitAnswers i fa outcome c)) = fetched c @ [req]
     \<and> req_body req = Some (JSON_stringify (JObject [(''answers'', JArray (map answer_json fa))]))
     \<and> req_url req = BASE_URL @ ''/api/v1/notes/'' @ i @ ''/submit-answers''"
  by (simp add: submitAnswers_def fetched_request notes_submitAnswers_def)

lemma handleNextQuestion_empty:
  "selectedAnswer q = [] \<Longrightarrow> handleNextQuestion nt outcome (q, c) = Inr (q, c)"
  by (simp add: handleNextQuestion_def truthy_def)

text \<open>An advance on a question that is not the last one moves on and sends nothing.\<close>

lemma advance_not_last:
  assumes "a \<noteq> []" and "Suc (currentQuestionIndex q) < length (questions q)"
  shows "handleNextQuestion nt outcome (handleAnswerSelect a q, c) =
     Inr (q\<lparr>answers := answers q @
                [\<lparr>a_question = q_question (questions q ! currentQuestionIndex q), a_answer = a\<rparr>],
            currentQuestionIndex := Suc (currentQuestionIndex q), selectedAnswer := []\<rparr>, c)"
  using assms
  by (simp add: handleNextQuestion_def handleAnswerSelect_def truthy_def Let_def)

text \<open>An advance on the last question submits the accumulator with the new answer.\<close>

lemma advance_last:
  assumes "a \<noteq> []" and "Suc (currentQuestionIndex q) = length (questions q)"
  shows "handleNextQuestion nt outcome (handleAnswerSelect a q, c) =
     Inr (submitQuiz nt outcome
            (answers q @ [\<lparr>a_question = q_question (questions q ! currentQuestionIndex q), a_answer = a\<rparr>])
            (q\<lparr>selectedAnswer := a,
               answers := answers q @
                 [\<lparr>a_question = q_question (questions q ! currentQuestionIndex q), a_answer = a\<rparr>]\<rparr>, c))"
proof -
  from assms(2) have "currentQuestionIndex q < length (questions q)"
    and "\<not> int (currentQuestionIndex q) < int (length (questions q)) - 1"
    by linarith+
  with assms(1) show ?thesis
    by (simp add: handleNextQuestion_def handleAnswerSelect_def truthy_def Let_def)
qed

text \<open>Either way the advance appends one entry and keeps the index inside the list.\<close>

lemma handleNextQuestion_step:
  assumes "a \<noteq> []" and "currentQuestionIndex q < length (questions q)"
  shows "\<exists>q' c'. handleNextQuestion nt outcome (handleAnswerSelect a q, c) = Inr (q', c')
     \<and> answers q' = answers q @
          [\<lparr>a_question = q_question (questions q ! currentQuestionIndex q), a_answer = a\<rparr>]
     \<and> questions q' = questions q
     \<and> currentQuestionIndex q' < length (questions q')"
proof (cases "Suc (currentQuestionIndex q) < length (questions q)")
  case True
  from advance_not_last[OF assms(1) True] True show ?thesis
    by simp
next
  case False
  with assms(2) have last: "Suc (currentQuestionIndex q) = length (questions q)"
    by simp
  define Q where "Q = q\<lparr>selectedAnswer := a, answers := answers q @
      [\<lparr>a_question = q_question (questions q ! currentQuestionIndex q), a_answer = a\<rparr>]\<rparr>"
  obtain q' c' where s: "submitQuiz nt outcome (answers Q) (Q, c) = (q', c')"
    by (cases "submitQuiz nt outcome (answers Q) (Q, c)")
  from advance_last[OF assms(1) last, of nt outcome c] s
  have h: "handleNextQuestion nt outcome (handleAnswerSelect a q, c) = Inr (q', c')"
    by (simp add: Q_def)
  from s have q': "q' = fst (submitQuiz nt outcome (answers Q) (Q, c))"
    by simp
  have "answers q' = answers Q" "questions q' = questions Q"
    "currentQuestionIndex q' = currentQuestionIndex Q"
    unfolding q' by (rule submitQuiz_fields)+
  with h assms show ?thesis
    by (simp add: Q_def)
qed

lemma advance_accumulates:
  assumes "currentQuestionIndex q < length (questions q)"
    and "[] \<notin> set (map fst steps)"
  shows "\<exists>q' c'. advance nt steps (q, c) = Inr (q', c')
     \<and> length (displayed nt steps (q, c)) = length steps
     \<and> answers q' = answers q @ map2 (\<lambda>shown a. \<lparr>a_question = shown, a_answer = a\<rparr>)
                                     (displayed nt steps (q, c)) (map fst steps)"
  using assms
proof (induction steps arbitrary: q c)
  case Nil
  then show ?case by simp
next
  case (Cons step steps)
  obtain a outcome where step: "step = (a, outcome)" by (cases step)
  from Cons.prems step have a: "a \<noteq> []" by auto
  from handleNextQuestion_step[OF a Cons.prems(1), of nt outcome c]
  obtain q1 c1 where h: "handleNextQuestion nt outcome (handleAnswerSelect a q, c) = Inr (q1, c1)"
    and acc: "answers q1 = answers q @
        [\<lparr>a_question = q_question (questions q ! currentQuestionIndex q), a_answer = a\<rparr>]"
    and inv: "currentQuestionIndex q1 < length (questions q1)"
    by blast
  from Cons.prems have rest: "[] \<notin> set (map fst steps)" by simp
  from Cons.IH[OF inv rest, of c1]
  obtain q' c' where run: "advance nt steps (q1, c1) = Inr (q', c')"
    and len: "length (displayed nt steps (q1, c1)) = length steps"
    and fin: "answers q' = answers q1 @ map2 (\<lambda>shown a. \<lparr>a_question = shown, a_answer = a\<rparr>)
                                     (displayed nt steps (q1, c1)) (map fst steps)"
    by blast
  from run len fin h acc step Cons.prems(1) show ?case
    by (simp add: currentQuestion_def)
qed

text \<open>
  As many answers as there are questions left: the run ends in the submission of the
  accumulator followed by the remaining questions paired with the answers.
\<close>

lemma advance_through_all:
  assumes "steps \<noteq> []"
    and "currentQuestionIndex q + length steps = length (questions q)"
    and "[] \<notin> set (map fst steps)"
  shows "\<exists>q1. advance nt steps (q, c) =
     Inr (submitQuiz nt (snd (last steps))
            (answers q @ map2 (\<lambda>qu a. \<lparr>a_question = q_question qu, a_answer = a\<rparr>)
                          (drop (currentQuestionIndex q) (questions q)) (map fst steps)) (q1, c))"
  using assms
proof (induction steps arbitrary: q)
  case Nil
  then show ?case by simp
next
  case (Cons step steps)
  obtain a outcome where step: "step = (a, outcome)" by (cases step)
  from Cons.prems step have a: "a \<noteq> []" by auto
  let ?i = "currentQuestionIndex q"
  let ?new = "\<lparr>a_question = q_question (questions q ! ?i), a_answer = a\<rparr>"
  from Cons.prems(2) have i: "?i < length (questions q)" by simp
  have dr: "drop ?i (questions q) = questions q ! ?i # drop (Suc ?i) (questions q)"
    using i by (simp add: Cons_nth_drop_Suc)
  show ?case
  proof (cases "steps = []")
    case True
    with Cons.prems(2) have "Suc ?i = length (questions q)" by simp
    from advance_last[OF a this, of nt outcome c] True step dr show ?thesis
      by auto
  next
    case False
    with Cons.prems(2) have lt: "Suc ?i < length (questions q)"
      by (cases steps) simp_all
    let ?q = "q\<lparr>answers := answers q @ [?new], currentQuestionIndex := Suc ?i, selectedAnswer := []\<rparr>"
    from Cons.prems have "currentQuestionIndex ?q + length steps = length (questions ?q)"
      and "[] \<notin> set (map fst steps)"
      by simp_all
    from Cons.IH[OF False this]
    obtain q1 where "advance nt steps (?q, c) =
        Inr (submitQuiz nt (snd (last steps))
            (answers ?q @ map2 (\<lambda>qu a. \<lparr>a_question = q_question qu, a_answer = a\<rparr>)
                          (drop (currentQuestionIndex ?q) (questions ?q)) (map fst steps)) (q1, c))"
      by blast
    with advance_not_last[OF a lt, of nt outcome c] step False dr show ?thesis
      by auto
  qed
qed

lemma generateQuiz_success:
  assumes "ok rg" and "json_body rg = Inr (Some g)"
  shows "\<exists>q1 c1. generateQuiz nt (Resolved rg) (q0, c0) = (q1, c1)
     \<and> questions q1 = (case gr_questions g of None \<Rightarrow> [] | Some l \<Rightarrow> l)
     \<and> quizState q1 = state_taking \<and> currentQuestionIndex q1 = 0 \<and> answers q1 = []
     \<and> selectedAnswer q1 = [] \<and> length (fetched c1) = Suc (length (fetched c0))"
  using assms
  by (simp add: generateQuiz_def generateQuestions_def request_def Let_def)

text \<open>
  The first submission of a session is as it should be. The session starts with a
  successful \<open>generateQuiz\<close> that yields the questions \<open>qs\<close>; \<open>steps\<close> holds one non-empty
  answer for each of them. Past the request of \<open>generateQuiz\<close>, the session sends one
  request (none when no question was generated): the submission, whose body is the array
  that pairs question \<open>i\<close> with the answer entered at step \<open>i\<close>.
\<close>

lemma submitted_answers:
  assumes "ok rg" and "json_body rg = Inr (Some g)"
    and "qs = (case gr_questions g of None \<Rightarrow> [] | Some l \<Rightarrow> l)"
    and "length steps = length qs" and "[] \<notin> set (map fst steps)"
  shows "\<exists>q' c'. advance nt steps (generateQuiz nt (Resolved rg) (q0, c0)) = Inr (q', c')
     \<and> map req_body (drop (Suc (length (fetched c0))) (fetched c')) =
         (if qs = [] then []
          else [Some (JSON_stringify (JObject [(''answers'', JArray (map answer_json
                  (map2 (\<lambda>qu a. \<lparr>a_question = q_question qu, a_answer = a\<rparr>) qs (map fst steps))))]))])
     \<and> map req_url (drop (Suc (length (fetched c0))) (fetched c')) =
         (if qs = [] then [] else [BASE_URL @ ''/api/v1/notes/'' @ note_id nt @ ''/submit-answers''])
     \<and> length (map2 (\<lambda>qu a. \<lparr>a_question = q_question qu, a_answer = a\<rparr>) qs (map fst steps))
         = length qs"
proof -
  from generateQuiz_success[OF assms(1,2), of nt q0 c0] assms(3)
  obtain q1 c1 where gen: "generateQuiz nt (Resolved rg) (q0, c0) = (q1, c1)"
    and q1: "questions q1 = qs" "currentQuestionIndex q1 = 0" "answers q1 = []"
    and c1: "length (fetched c1) = Suc (length (fetched c0))"
    by auto
  show ?thesis
  proof (cases "qs = []")
    case True
    with assms(4) gen c1 show ?thesis by simp
  next
    case False
    with assms(4) have ne: "steps \<noteq> []" by auto
    let ?fa = "map2 (\<lambda>qu a. \<lparr>a_question = q_question qu, a_answer = a\<rparr>) qs (map fst steps)"
    from advance_through_all[OF ne _ assms(5), of q1 nt c1] q1 assms(4)
    obtain q2 where run: "advance nt steps (q1, c1) = Inr (submitQuiz nt (snd (last steps)) ?fa (q2, c1))"
      by auto
    obtain q' c' where sub: "submitQuiz nt (snd (last steps)) ?fa (q2, c1) = (q', c')"
      by (cases "submitQuiz nt (snd (last steps)) ?fa (q2, c1)")
    from fetched_submitQuiz[of nt "snd (last steps)" ?fa q2 c1] sub
    have "fetched c' = fetched (snd (submitAnswers (note_id nt) ?fa (snd (last steps)) c1))"
      by simp
    with fetched_submitAnswers[of "note_id nt" ?fa "snd (last steps)" c1]
    obtain req where "fetched c' = fetched c1 @ [req]"
      and "req_body req = Some (JSON_stringify (JObject [(''answers'', JArray (map answer_json ?fa))]))"
      and "req_url req = BASE_URL @ ''/api/v1/notes/'' @ note_id nt @ ''/submit-answers''"
      by auto
    with c1 have "map req_body (drop (Suc (length (fetched c0))) (fetched c')) =
          [Some (JSON_stringify (JObject [(''answers'', JArray (map answer_json ?fa))]))]"
      and "map req_url (drop (Suc (length (fetched c0))) (fetched c')) =
          [BASE_URL @ ''/api/v1/notes/'' @ note_id nt @ ''/submit-answers'']"
      by simp_all
    with gen run sub False assms(4) show ?thesis by simp
  qed
qed

lemma submitted_answers_example:
  "\<exists>q' c'. advance example_note example_steps
       (generateQuiz example_note (Resolved example_generated) (QuizInterface_initial, example_client))
         = Inr (q', c')
     \<and> map req_body (drop 1 (fetched c')) =
         [Some (JSON_stringify (JObject [(''answers'', JArray
            [JObject [(''question'', JString ''What is a group?''),
                      (''answer'', JString ''a set with an operation'')],
             JObject [(''question'', JString ''Is 0 a unit?''), (''answer'', JString ''no'')]])]))]
     \<and> map req_url (drop 1 (fetched c')) =
         [''https://learn-with-ai.getxoxo.space/api/v1/notes/n1/submit-answers'']"
  using submitted_answers [where rg = example_generated
      and g = "\<lparr>gr_questions = Some example_questions\<rparr>" and qs = example_questions
      and steps = example_steps and nt = example_note and ?q0.0 = QuizInterface_initial
      and ?c0.0 = example_client]
  by (simp add: ok_def example_generated_def example_questions_def example_steps_def
      example_client_def constructor_def example_note_def answer_json_def BASE_URL_def)

lemma submitQuiz_selectedAnswer:
  "selectedAnswer (fst (submitQuiz nt outcome fa (q, c))) = selectedAnswer q"
  by (simp add: submitQuiz_def Let_def split: prod.splits sum.splits)

text \<open>
  A submission leaves the index and the current answer as they are. So a second advance on
  the last question appends the last answer once more and submits the longer array.
\<close>

lemma second_advance_on_last_question:
  assumes "a \<noteq> []" and "Suc (currentQuestionIndex q) = length (questions q)"
    and "handleNextQuestion nt outcome (handleAnswerSelect a q, c) = Inr (q1, c1)"
  shows "\<exists>q2. handleNextQuestion nt outcome' (q1, c1) =
     Inr (submitQuiz nt outcome'
            (answers q @
               [\<lparr>a_question = q_question (questions q ! currentQuestionIndex q), a_answer = a\<rparr>,
                \<lparr>a_question = q_question (questions q ! currentQuestionIndex q), a_answer = a\<rparr>])
            (q2, c1))"
proof -
  let ?new = "\<lparr>a_question = q_question (questions q ! currentQuestionIndex q), a_answer = a\<rparr>"
  let ?Q = "q\<lparr>selectedAnswer := a, answers := answers q @ [?new]\<rparr>"
  from advance_last[OF assms(1,2), of nt outcome c] assms(3)
  have "(q1, c1) = submitQuiz nt outcome (answers q @ [?new]) (?Q, c)"
    by simp
  then have q1: "q1 = fst (submitQuiz nt outcome (answers q @ [?new]) (?Q, c))"
    by (metis fst_conv)
  have fields: "selectedAnswer q1 = a" "questions q1 = questions q"
    "currentQuestionIndex q1 = currentQuestionIndex q" "answers q1 = answers q @ [?new]"
    unfolding q1 by (simp_all add: submitQuiz_fields submitQuiz_selectedAnswer)
  from assms(2) have "currentQuestionIndex q < length (questions q)"
    and "\<not> int (currentQuestionIndex q) < int (length (questions q)) - 1"
    by linarith+
  with assms(1) fields
  have "handleNextQuestion nt outcome' (q1, c1) =
     Inr (submitQuiz nt outcome' (answers q @ [?new, ?new]) (q1\<lparr>answers := answers q @ [?new, ?new]\<rparr>, c1))"
    by (simp add: handleNextQuestion_def truthy_def Let_def)
  then show ?thesis
    by (rule exI)
qed

text \<open>
  Claim C2: in every quiz session in which the user answers and advances through all
  generated questions, the answers array passed to \<open>submitAnswers\<close> has as many entries as
  questions were generated, and entry \<open>i\<close> pairs the text of question \<open>i\<close> with the answer
  entered at step \<open>i\<close>. The code breaks this in the session whose submission fails: the
  quiz stays on the last question with its answer selected and the button enabled, and
  the next press of the button (the notification says "Please try again.") sends one
  request, the submission of the accumulator with the last answer a second time, one
  entry more than there are questions.
\<close>

theorem resubmission_appends_again:
  assumes "a \<noteq> []" and "Suc (currentQuestionIndex q) = length (questions q)"
    and "handleNextQuestion nt outcome (handleAnswerSelect a q, c) = Inr (q1, c1)"
  shows "\<exists>q2 c2. handleNextQuestion nt outcome' (q1, c1) = Inr (q2, c2)
     \<and> map req_body (drop (length (fetched c1)) (fetched c2)) =
         [Some (JSON_stringify (JObject [(''answers'', JArray (map answer_json
            (answers q @
               [\<lparr>a_question = q_question (questions q ! currentQuestionIndex q), a_answer = a\<rparr>,
                \<lparr>a_question = q_question (questions q ! currentQuestionIndex q), a_answer = a\<rparr>])))]))]
     \<and> length (answers q @
               [\<lparr>a_question = q_question (questions q ! currentQuestionIndex q), a_answer = a\<rparr>,
                \<lparr>a_question = q_question (questions q ! currentQuestionIndex q), a_answer = a\<rparr>])
         = Suc (length (answers q) + 1)"
proof -
  let ?new = "\<lparr>a_question = q_question (questions q ! currentQuestionIndex q), a_answer = a\<rparr>"
  from second_advance_on_last_question[OF assms, of outcome']
  obtain q' where press: "handleNextQuestion nt outcome' (q1, c1) =
      Inr (submitQuiz nt outcome' (answers q @ [?new, ?new]) (q', c1))"
    by blast
  obtain q2 c2 where sub: "submitQuiz nt outcome' (answers q @ [?new, ?new]) (q', c1) = (q2, c2)"
    by (cases "submitQuiz nt outcome' (answers q @ [?new, ?new]) (q', c1)")
  from fetched_submitQuiz[of nt outcome' "answers q @ [?new, ?new]" q' c1] sub
  have "fetched c2 = fetched (snd (submitAnswers (note_id nt) (answers q @ [?new, ?new]) outcome' c1))"
    by simp
  with fetched_submitAnswers[of "note_id nt" "answers q @ [?new, ?new]" outcome' c1]
  obtain req where "fetched c2 = fetched c1 @ [req]"
    and "req_body req = Some (JSON_stringify (JObject
          [(''answers'', JArray (map answer_json (answers q @ [?new, ?new])))]))"
    by auto
  then have "map req_body (drop (length (fetched c1)) (fetched c2)) =
      [Some (JSON_stringify (JObject [(''answers'', JArray (map answer_json (answers q @ [?new, ?new])))]))]"
    by simp
  with press sub show ?thesis
    by simp
qed

theorem resubmission_appends_again_witness:
  "\<exists>q1 c1 q2 c2.
     handleNextQuestion example_note (Resolved example_unavailable)
       (handleAnswerSelect ''no'' example_last, example_client) = Inr (q1, c1)
   \<and> quizState q1 = state_taking \<and> length (questions q1) = 2 \<and> length (fetched c1) = 1
   \<and> handleNextQuestion example_note (Resolved example_graded) (q1, c1) = Inr (q2, c2)
   \<and> map req_body (drop 1 (fetched c2)) =
       [Some (JSON_stringify (JObject [(''answers'', JArray
          [JObject [(''question'', JString ''What is a group?''),
                    (''answer'', JString ''a set with an operation'')],
           JObject [(''question'', JString ''Is 0 a unit?''), (''answer'', JString ''no'')],
           JObject [(''question'', JString ''Is 0 a unit?''), (''answer'', JString ''no'')]])]))]"
proof -
  let ?new = "\<lparr>a_question = q_question (questions example_last ! currentQuestionIndex example_last),
                 a_answer = ''no''\<rparr>"
  let ?sub = "submitQuiz example_note (Resolved example_unavailable) (answers example_last @ [?new])
      (example_last\<lparr>selectedAnswer := ''no'', answers := answers example_last @ [?new]\<rparr>,
       example_client)"
  have last: "''no'' \<noteq> []" "Suc (currentQuestionIndex example_last) = length (questions example_last)"
    by (simp_all add: example_last_def example_taking_def QuizInterface_initial_def
        example_questions_def)
  have "handleNextQuestion example_note (Resolved example_unavailable)
       (handleAnswerSelect ''no'' example_last, example_client) = Inr ?sub"
    by (rule advance_last[OF last])
  then have first: "handleNextQuestion example_note (Resolved example_unavailable)
       (handleAnswerSelect ''no'' example_last, example_client) = Inr (fst ?sub, snd ?sub)"
    by simp
  have state: "quizState (fst ?sub) = state_taking" "length (questions (fst ?sub)) = 2"
    "length (fetched (snd ?sub)) = 1"
    by (simp_all add: submitQuiz_def submitAnswers_def request_def Let_def
        ok_def example_unavailable_def example_last_def example_taking_def QuizInterface_initial_def
        example_questions_def example_client_def constructor_def)
  from resubmission_appends_again[OF last first, of "Resolved example_graded"]
  obtain q2 c2 where again: "handleNextQuestion example_note (Resolved example_graded)
        (fst ?sub, snd ?sub) = Inr (q2, c2)"
    and body: "map req_body (drop (length (fetched (snd ?sub))) (fetched c2)) =
       [Some (JSON_stringify (JObject [(''answers'', JArray (map answer_json
          (answers example_last @ [?new, ?new])))]))]"
    by (elim exE conjE) (rule that)
  have "map answer_json (answers example_last @ [?new, ?new]) =
          [JObject [(''question'', JString ''What is a group?''),
                    (''answer'', JString ''a set with an operation'')],
           JObject [(''question'', JString ''Is 0 a unit?''), (''answer'', JString ''no'')],
           JObject [(''question'', JString ''Is 0 a unit?''), (''answer'', JString ''no'')]]"
    by (simp add: answer_json_def example_last_def example_taking_def QuizInterface_initial_def
        example_questions_def)
  with body state(3) have "map req_body (drop 1 (fetched c2)) =
       [Some (JSON_stringify (JObject [(''answers'', JArray
          [JObject [(''question'', JString ''What is a group?''),
                    (''answer'', JString ''a set with an operation'')],
           JObject [(''question'', JString ''Is 0 a unit?''), (''answer'', JString ''no'')],
           JObject [(''question'', JString ''Is 0 a unit?''), (''answer'', JString ''no'')]])]))]"
    by simp
  with first state again show ?thesis
    by (intro exI conjI) assumption+
qed

text \<open>
  Claim C3: the advance action with an empty current answer leaves the quiz (and the client)
  unchanged; after \<open>N\<close> advances with non-empty answers the accumulator holds \<open>N\<close> more
  entries, so exactly \<open>N\<close> from an empty one, and the \<open>question\<close> field of the \<open>i\<close>-th is the
  text of the question on display at step \<open>i\<close> (its \<open>answer\<close> field is the answer entered).
\<close>

theorem advance_accumulator:
  "(selectedAnswer q = [] \<longrightarrow> handleNextQuestion nt outcome (q, c) = Inr (q, c))
   \<and> (currentQuestionIndex q < length (questions q) \<and> [] \<notin> set (map fst steps) \<longrightarrow>
        (\<exists>q' c'. advance nt steps (q, c) = Inr (q', c')
           \<and> length (displayed nt steps (q, c)) = length steps
           \<and> answers q' = answers q @ map2 (\<lambda>shown a. \<lparr>a_question = shown, a_answer = a\<rparr>)
                                          (displayed nt steps (q, c)) (map fst steps)
           \<and> length (answers q') = length (answers q) + length steps))"
proof (intro conjI impI)
  assume "selectedAnswer q = []"
  then show "handleNextQuestion nt outcome (q, c) = Inr (q, c)"
    by (rule handleNextQuestion_empty)
next
  assume "currentQuestionIndex q < length (questions q) \<and> [] \<notin> set (map fst steps)"
  then have "currentQuestionIndex q < length (questions q)" and "[] \<notin> set (map fst steps)"
    by simp_all
  from advance_accumulates[OF this, of nt c]
  obtain q' c' where run: "advance nt steps (q, c) = Inr (q', c')"
    and len: "length (displayed nt steps (q, c)) = length steps"
    and acc: "answers q' = answers q @ map2 (\<lambda>shown a. \<lparr>a_question = shown, a_answer = a\<rparr>)
                                          (displayed nt steps (q, c)) (map fst steps)"
    by blast
  from acc len have "length (answers q') = length (answers q) + length steps"
    by simp
  with run len acc
  show "\<exists>q' c'. advance nt steps (q, c) = Inr (q', c')
           \<and> length (displayed nt steps (q, c)) = length steps
           \<and> answers q' = answers q @ map2 (\<lambda>shown a. \<lparr>a_question = shown, a_answer = a\<rparr>)
                                          (displayed nt steps (q, c)) (map fst steps)
           \<and> length (answers q') = length (answers q) + length steps"
    by blast
qed

theorem advance_accumulator_witness:
  "handleNextQuestion example_note (Resolved example_graded) (example_taking, example_client)
     = Inr (example_taking, example_client)
   \<and> displayed example_note example_steps (example_taking, example_client)
     = [''What is a group?'', ''Is 0 a unit?'']
   \<and> (\<exists>q' c'. advance example_note example_steps (example_taking, example_client) = Inr (q', c')
        \<and> answers q' =
            [\<lparr>a_question = ''What is a group?'', a_answer = ''a set with an operation''\<rparr>,
             \<lparr>a_question = ''Is 0 a unit?'', a_answer = ''no''\<rparr>])"
proof -
  have shown: "displayed example_note example_steps (example_taking, example_client)
     = [''What is a group?'', ''Is 0 a unit?'']"
    by (simp add: example_taking_def QuizInterface_initial_def example_questions_def
        example_steps_def currentQuestion_def handleNextQuestion_def handleAnswerSelect_def
        truthy_def Let_def)
  have start: "selectedAnswer example_taking = []"
    "currentQuestionIndex example_taking < length (questions example_taking)
       \<and> [] \<notin> set (map fst example_steps)"
    "answers example_taking = []"
    by (simp_all add: example_taking_def QuizInterface_initial_def example_questions_def
        example_steps_def)
  note inst = advance_accumulator [where q = example_taking and nt = example_note
      and outcome = "Resolved example_graded" and c = example_client and steps = example_steps]
  from inst start(1)
  have unchanged: "handleNextQuestion example_note (Resolved example_graded)
      (example_taking, example_client) = Inr (example_taking, example_client)"
    by blast
  from inst start(2)
  obtain q' c' where run: "advance example_note example_steps (example_taking, example_client)
      = Inr (q', c')"
    and acc: "answers q' = answers example_taking @
        map2 (\<lambda>shown a. \<lparr>a_question = shown, a_answer = a\<rparr>)
          (displayed example_note example_steps (example_taking, example_client))
          (map fst example_steps)"
    by blast
  from acc shown start(3)
  have "answers q' =
      [\<lparr>a_question = ''What is a group?'', a_answer = ''a set with an operation''\<rparr>,
       \<lparr>a_question = ''Is 0 a unit?'', a_answer = ''no''\<rparr>]"
    by (simp add: example_steps_def)
  with unchanged shown run show ?thesis
    by blast
qed

text \<open>
  Claim C7: when the \<open>submitAnswers\<close> request fails, \<open>submitQuiz\<close> leaves the quiz in the
  state \<open>taking\<close> with its questions, accumulator, index and current answer as they were, and
  emits one notification; when it succeeds the state becomes \<open>results\<close> and \<open>results\<close> holds
  the response (with its score). So the state becomes \<open>results\<close> exactly when the request
  succeeds.
\<close>

theorem submit_failure_keeps_quiz:
  assumes "quizState q = state_taking"
  shows "(case fst (submitAnswers (note_id nt) finalAnswers outcome c) of
            Inl e \<Rightarrow>
              fst (submitQuiz nt outcome finalAnswers (q, c)) =
                q\<lparr>quiz_isLoading := False, quiz_toasts := quiz_toasts q @
                    [\<lparr>t_title = ''Failed to submit quiz'', t_description = ''Please try again.'',
                      t_variant = Some ''destructive''\<rparr>]\<rparr>
          | Inr response \<Rightarrow>
              fst (submitQuiz nt outcome finalAnswers (q, c)) =
                q\<lparr>quiz_isLoading := False, quiz_results := response, quizState := state_results\<rparr>)
     \<and> (quizState (fst (submitQuiz nt outcome finalAnswers (q, c))) = state_results)
         = (\<exists>response. fst (submitAnswers (note_id nt) finalAnswers outcome c) = Inr response)
     \<and> (quizState (fst (submitQuiz nt outcome finalAnswers (q, c))) = state_taking)
         = (\<exists>e. fst (submitAnswers (note_id nt) finalAnswers outcome c) = Inl e)"
  using assms
  by (cases "submitAnswers (note_id nt) finalAnswers outcome c")
     (auto simp add: submitQuiz_def Let_def split: sum.splits)

theorem submit_failure_keeps_quiz_witness:
  "fst (submitQuiz example_note (Resolved example_unavailable) [] (example_taking, example_client)) =
     example_taking\<lparr>quiz_toasts :=
        [\<lparr>t_title = ''Failed to submit quiz'', t_description = ''Please try again.'',
          t_variant = Some ''destructive''\<rparr>]\<rparr>
   \<and> fst (submitQuiz example_note (Resolved example_graded) [] (example_taking, example_client)) =
     example_taking\<lparr>quizState := state_results,
        quiz_results := Some \<lparr>sr_score = Some 1,
          sr_gradedAnswers = Some [\<lparr>ga_isCorrect = Some True\<rparr>, \<lparr>ga_isCorrect = Some False\<rparr>]\<rparr>\<rparr>"
  using submit_failure_keeps_quiz [where q = example_taking and nt = example_note
      and finalAnswers = "[]" and outcome = "Resolved example_unavailable" and c = example_client]
    submit_failure_keeps_quiz [where q = example_taking and nt = example_note
      and finalAnswers = "[]" and outcome = "Resolved example_graded" and c = example_client]
  by (simp add: example_taking_def QuizInterface_initial_def submitAnswers_def request_def Let_def
      ok_def example_unavailable_def example_graded_def)

section \<open>Properties of the chat\<close>

lemma messages_begin:
  "messages (handleSendMessage_begin t ch) = messages ch @
     [\<lparr>m_id = toString (now t), m_role = user, m_content = inputValue ch,
       m_timestamp = toISOString t\<rparr>]"
  by (simp add: handleSendMessage_begin_def)

lemma messages_settle:
  "messages (fst (handleSendMessage_settle nt question t outcome (ch, c))) = messages ch @
     [\<lparr>m_id = toString (now t + 1), m_role = assistant,
       m_content = (case fst (askQuestion (note_id nt) question outcome c) of
                      Inr (Some response) \<Rightarrow> or_default (ask_answer response) fallback_answer
                    | Inr None \<Rightarrow> apology
                    | Inl e \<Rightarrow> apology),
       m_timestamp = toISOString t\<rparr>]"
  by (simp add: handleSendMessage_settle_def Let_def split: prod.splits sum.splits option.splits)


text \<open>
  Claim C4, as stated: every send with non-empty input appends a user message and an
  assistant message, so the transcript grows by 2. First, an input of two spaces is not
  empty, and \<open>handleSendMessage\<close> returns at its guard \<open>!inputValue.trim()\<close>: nothing is
  appended and nothing is sent. Second, the history load of the mount does not set
  \<open>isLoading\<close>, so a send can start while it is pending: the chat is mounted (a transcript
  of one message, the welcome), the send appends the user message, the load settles and
  replaces the transcript with a history of one message, and the answer is appended to
  that. The transcript went from 1 message to 2.
\<close>

theorem blank_input_counterexample:
  "inputValue example_blank \<noteq> []
   \<and> handleSendMessage example_note example_clock example_later (Resolved example_answer)
        (example_blank, example_client) = (example_blank, example_client)
   \<and> length (messages (fst (handleSendMessage example_note example_clock example_later
        (Resolved example_answer) (example_blank, example_client))))
        \<noteq> length (messages example_blank) + 2
   \<and> inputValue example_asking \<noteq> []
   \<and> length (messages (seed_welcome example_note example_clock example_asking)) = 1
   \<and> length (messages (fst (handleSendMessage_settle example_note (inputValue example_asking)
        example_later (Resolved example_answer)
        (loadConversations example_note (Resolved example_short_conversations)
          (handleSendMessage_begin example_clock
             (seed_welcome example_note example_clock example_asking), example_client))))) = 2"
proof -
  have blank: "handleSendMessage example_note example_clock example_later (Resolved example_answer)
        (example_blank, example_client) = (example_blank, example_client)"
    "inputValue example_blank \<noteq> []"
    by (simp_all add: handleSendMessage_def example_blank_def ChatInterface_initial_def trim_def
        is_space_def truthy_def)
  obtain ch c where loaded: "loadConversations example_note (Resolved example_short_conversations)
          (handleSendMessage_begin example_clock
             (seed_welcome example_note example_clock example_asking), example_client) = (ch, c)"
    by (metis surj_pair)
  then have "messages ch = [hd example_history]"
    by (auto simp add: loadConversations_def getConversations_def request_def Let_def ok_def
        example_short_conversations_def split: prod.splits)
  then have "length (messages (fst (handleSendMessage_settle example_note (inputValue example_asking)
        example_later (Resolved example_answer) (ch, c)))) = 2"
    by (simp add: messages_settle)
  with blank loaded show ?thesis
    by (simp add: seed_welcome_def example_asking_def ChatInterface_initial_def)
qed

text \<open>
  Claim C4, amended: a send whose input is blank (empty once trimmed), or made while a
  send is outstanding, appends nothing and sends nothing. Every other send appends one
  user message with the input at once, and, when its request settles, one assistant
  message to the transcript as it then is: on success the answer, or the fixed fallback when
  the answer is missing or empty; on failure (also a \<open>null\<close> response) the fixed apology. In
  a send that runs from start to end with no other change of the transcript in between,
  the transcript grows by exactly 2.
\<close>

theorem send_appends_two:
  "(trim (inputValue ch) = [] \<or> chat_isLoading ch \<longrightarrow>
      handleSendMessage nt t t' outcome (ch, c) = (ch, c))
   \<and> (trim (inputValue ch) \<noteq> [] \<and> \<not> chat_isLoading ch \<longrightarrow>
        handleSendMessage nt t t' outcome (ch, c) =
          handleSendMessage_settle nt (inputValue ch) t' outcome (handleSendMessage_begin t ch, c)
      \<and> length (messages (fst (handleSendMessage nt t t' outcome (ch, c)))) = length (messages ch) + 2)
   \<and> messages (handleSendMessage_begin t ch) = messages ch @
        [\<lparr>m_id = toString (now t), m_role = user, m_content = inputValue ch,
          m_timestamp = toISOString t\<rparr>]
   \<and> chat_isLoading (handleSendMessage_begin t ch)
   \<and> messages (fst (handleSendMessage_settle nt question t' outcome (ch', c'))) = messages ch' @
        [\<lparr>m_id = toString (now t' + 1), m_role = assistant,
          m_content = (case fst (askQuestion (note_id nt) question outcome c') of
                         Inr (Some response) \<Rightarrow> or_default (ask_answer response) fallback_answer
                       | Inr None \<Rightarrow> apology
                       | Inl e \<Rightarrow> apology),
          m_timestamp = toISOString t'\<rparr>]"
proof (intro conjI impI)
  assume "trim (inputValue ch) = [] \<or> chat_isLoading ch"
  then show "handleSendMessage nt t t' outcome (ch, c) = (ch, c)"
    by (auto simp add: handleSendMessage_def truthy_def)
next
  assume run: "trim (inputValue ch) \<noteq> [] \<and> \<not> chat_isLoading ch"
  then show whole: "handleSendMessage nt t t' outcome (ch, c) =
      handleSendMessage_settle nt (inputValue ch) t' outcome (handleSendMessage_begin t ch, c)"
    by (simp add: handleSendMessage_def truthy_def)
  show "length (messages (fst (handleSendMessage nt t t' outcome (ch, c)))) = length (messages ch) + 2"
    unfolding whole by (simp add: messages_settle messages_begin)
next
  show "chat_isLoading (handleSendMessage_begin t ch)"
    by (simp add: handleSendMessage_begin_def)
qed (rule messages_begin messages_settle)+

theorem send_appends_two_witness:
  "handleSendMessage example_note example_clock example_later (Resolved example_answer)
      (example_blank, example_client) = (example_blank, example_client)
   \<and> handleSendMessage example_note example_clock example_later (Resolved example_answer)
      (example_asking\<lparr>chat_isLoading := True\<rparr>, example_client)
        = (example_asking\<lparr>chat_isLoading := True\<rparr>, example_client)
   \<and> messages (fst (handleSendMessage example_note example_clock example_later (Resolved example_answer)
      (example_asking, example_client))) =
     [\<lparr>m_id = ''1700000000000'', m_role = user, m_content = ''What is a group?'',
       m_timestamp = ''2023-11-14T22:13:20.000Z''\<rparr>,
      \<lparr>m_id = ''1700000002001'', m_role = assistant,
       m_content = ''A set with an associative operation.'',
       m_timestamp = ''2023-11-14T22:13:22.000Z''\<rparr>]
   \<and> messages (fst (handleSendMessage example_note example_clock example_later
      (Resolved example_unavailable) (example_asking, example_client))) =
     [\<lparr>m_id = ''1700000000000'', m_role = user, m_content = ''What is a group?'',
       m_timestamp = ''2023-11-14T22:13:20.000Z''\<rparr>,
      \<lparr>m_id = ''1700000002001'', m_role = assistant,
       m_content = ''I'm sorry, I encountered an error while processing your question. Please try again.'',
       m_timestamp = ''2023-11-14T22:13:22.000Z''\<rparr>]"
proof -
  have blank: "trim (inputValue example_blank) = [] \<or> chat_isLoading example_blank"
    and loading: "trim (inputValue (example_asking\<lparr>chat_isLoading := True\<rparr>)) = []
      \<or> chat_isLoading (example_asking\<lparr>chat_isLoading := True\<rparr>)"
    and asking: "trim (inputValue example_asking) \<noteq> [] \<and> \<not> chat_isLoading example_asking"
    by (simp_all add: example_blank_def example_asking_def ChatInterface_initial_def trim_def
        is_space_def)
  have begun: "messages (handleSendMessage_begin example_clock example_asking) =
     [\<lparr>m_id = ''1700000000000'', m_role = user, m_content = ''What is a group?'',
       m_timestamp = ''2023-11-14T22:13:20.000Z''\<rparr>]"
    by (simp add: handleSendMessage_begin_def example_asking_def ChatInterface_initial_def
        example_clock_def toString.simps digit_char_def)
  have later: "toString (now example_later + 1) = ''1700000002001''"
    "toISOString example_later = ''2023-11-14T22:13:22.000Z''"
    by (simp_all add: example_later_def toString.simps digit_char_def)
  have asked: "fst (askQuestion (note_id example_note) (inputValue example_asking)
        (Resolved example_answer) example_client)
      = Inr (Some \<lparr>ask_answer = Some ''A set with an associative operation.''\<rparr>)"
    "fst (askQuestion (note_id example_note) (inputValue example_asking)
        (Resolved (example_unavailable :: ask_response nullable response)) example_client)
      = Inl (Error ''API Error: 503 Service Unavailable'')"
    by (simp_all add: askQuestion_def request_def Let_def ok_def example_answer_def
        example_unavailable_def toString.simps digit_char_def)
  note answered = send_appends_two [where ch = example_asking and nt = example_note
      and t = example_clock and t' = example_later and outcome = "Resolved example_answer"
      and c = example_client and question = "inputValue example_asking"
      and ch' = "handleSendMessage_begin example_clock example_asking" and c' = example_client]
  note failed = send_appends_two [where ch = example_asking and nt = example_note
      and t = example_clock and t' = example_later and outcome = "Resolved example_unavailable"
      and c = example_client and question = "inputValue example_asking"
      and ch' = "handleSendMessage_begin example_clock example_asking" and c' = example_client]
  note blocked = send_appends_two [where ch = example_blank and nt = example_note
      and t = example_clock and t' = example_later and outcome = "Resolved example_answer"
      and c = example_client]
  note busy = send_appends_two [where ch = "example_asking\<lparr>chat_isLoading := True\<rparr>"
      and nt = example_note and t = example_clock and t' = example_later
      and outcome = "Resolved example_answer" and c = example_client]
  from blocked [THEN conjunct1] blank
  have first: "handleSendMessage example_note example_clock example_later
      (Resolved example_answer) (example_blank, example_client) = (example_blank, example_client)"
    by (rule mp)
  from busy [THEN conjunct1] loading
  have second: "handleSendMessage example_note example_clock example_later
      (Resolved example_answer) (example_asking\<lparr>chat_isLoading := True\<rparr>, example_client)
        = (example_asking\<lparr>chat_isLoading := True\<rparr>, example_client)"
    by (rule mp)
  from answered [THEN conjunct2, THEN conjunct1] asking
  have run: "handleSendMessage example_note example_clock example_later (Resolved example_answer)
      (example_asking, example_client) =
      handleSendMessage_settle example_note (inputValue example_asking) example_later
        (Resolved example_answer) (handleSendMessage_begin example_clock example_asking, example_client)"
    by (rule mp [THEN conjunct1])
  note settled = answered [THEN conjunct2, THEN conjunct2, THEN conjunct2, THEN conjunct2]
  from settled begun later asked(1)
  have third: "messages (fst (handleSendMessage example_note example_clock
      example_later (Resolved example_answer) (example_asking, example_client))) =
     [\<lparr>m_id = ''1700000000000'', m_role = user, m_content = ''What is a group?'',
       m_timestamp = ''2023-11-14T22:13:20.000Z''\<rparr>,
      \<lparr>m_id = ''1700000002001'', m_role = assistant,
       m_content = ''A set with an associative operation.'',
       m_timestamp = ''2023-11-14T22:13:22.000Z''\<rparr>]"
    unfolding run by (simp add: or_default_def truthy_def)
  from failed [THEN conjunct2, THEN conjunct1] asking
  have run': "handleSendMessage example_note example_clock example_later
      (Resolved example_unavailable) (example_asking, example_client) =
      handleSendMessage_settle example_note (inputValue example_asking) example_later
        (Resolved example_unavailable)
        (handleSendMessage_begin example_clock example_asking, example_client)"
    by (rule mp [THEN conjunct1])
  note settled' = failed [THEN conjunct2, THEN conjunct2, THEN conjunct2, THEN conjunct2]
  from settled' begun later asked(2)
  have fourth: "messages (fst (handleSendMessage example_note example_clock
      example_later (Resolved example_unavailable) (example_asking, example_client))) =
     [\<lparr>m_id = ''1700000000000'', m_role = user, m_content = ''What is a group?'',
       m_timestamp = ''2023-11-14T22:13:20.000Z''\<rparr>,
      \<lparr>m_id = ''1700000002001'', m_role = assistant,
       m_content = ''I'm sorry, I encountered an error while processing your question. Please try again.'',
       m_timestamp = ''2023-11-14T22:13:22.000Z''\<rparr>]"
    unfolding run' by (simp add: apology_def)
  from first second third fourth show ?thesis
    by (intro conjI)
qed



text \<open>
  Claim C9, as stated: on mount the welcome message is seeded and the history load started,
  so that under some completion ordering the loaded history and the welcome message coexist
  in the transcript. Each of the two \<open>setMessages\<close> replaces the whole transcript. In the
  order of the code (seed, then the settled load) the transcript is the history, without
  the welcome message; were the load to settle before the seed, the transcript would be
  the welcome message, without the history.
\<close>

theorem coexistence_counterexample:
  "messages (fst (useEffect_mount example_note example_clock (Resolved example_conversations)
      (ChatInterface_initial, example_client))) = example_history
   \<and> welcomeMessage example_note example_clock \<notin> set (messages (fst (useEffect_mount example_note
        example_clock (Resolved example_conversations) (ChatInterface_initial, example_client))))
   \<and> messages (seed_welcome example_note example_clock (fst (loadConversations example_note
        (Resolved example_conversations) (ChatInterface_initial, example_client))))
        = [welcomeMessage example_note example_clock]
   \<and> set example_history \<inter> set (messages (seed_welcome example_note example_clock
        (fst (loadConversations example_note (Resolved example_conversations)
          (ChatInterface_initial, example_client))))) = {}"
  by (simp add: useEffect_mount_def loadConversations_def seed_welcome_def getConversations_def
      request_def Let_def ok_def example_conversations_def example_history_def welcomeMessage_def)

text \<open>
  Claim C9, amended: on mount the history load is started and the welcome message is
  seeded, whatever the load will give. When the load resolves with a \<open>messages\<close> field, the
  loaded history replaces the transcript; when it fails, or the response is \<open>null\<close> or has no
  \<open>messages\<close>, the transcript is the welcome message alone.
\<close>

theorem mount_transcript:
  "messages (fst (useEffect_mount nt t outcome (ch, c))) =
     (case fst (getConversations (note_id nt) outcome c) of
        Inr (Some response) \<Rightarrow>
          (case cr_messages response of Some history \<Rightarrow> history | None \<Rightarrow> [welcomeMessage nt t])
      | Inr None \<Rightarrow> [welcomeMessage nt t]
      | Inl e \<Rightarrow> [welcomeMessage nt t])"
  by (simp add: useEffect_mount_def loadConversations_def seed_welcome_def Let_def
      split: prod.splits sum.splits option.splits)

theorem mount_transcript_witness:
  "messages (fst (useEffect_mount example_note example_clock (Resolved example_conversations)
      (ChatInterface_initial, example_client))) = example_history
   \<and> messages (fst (useEffect_mount example_note example_clock (Resolved example_unavailable)
      (ChatInterface_initial, example_client))) = [welcomeMessage example_note example_clock]"
  using mount_transcript [where nt = example_note and t = example_clock
      and outcome = "Resolved example_conversations" and ch = ChatInterface_initial
      and c = example_client]
    mount_transcript [where nt = example_note and t = example_clock
      and outcome = "Resolved example_unavailable" and ch = ChatInterface_initial
      and c = example_client]
  by (simp add: getConversations_def request_def Let_def ok_def example_conversations_def
      example_unavailable_def)

section \<open>Properties of the upload dialog\<close>

text \<open>After \<open>k\<close> runs of the interval the progress is \<open>10 * k\<close>, capped at 90.\<close>

lemma tick_begin:
  "(progress_tick ^^ k) (handleUpload_begin m) =
     m\<lparr>isUploading := True, uploadStatus := status_uploading, uploadProgress := min (10 * k) 90,
       progressInterval := True\<rparr>"
proof (induction k)
  case 0
  show ?case by (simp add: handleUpload_begin_def)
next
  case (Suc k)
  then show ?case by (simp add: progress_tick_def min_def)
qed

lemma pending_progress:
  "map uploadProgress (pending_states ticks m) = map (\<lambda>k. min (10 * k) 90) [0..<Suc ticks]"
  unfolding pending_states_def by (simp add: tick_begin del: upt_Suc)

lemma sorted_pending:
  "sorted (map (\<lambda>k::nat. min (10 * k) (90::nat)) [0..<n])"
  by (rule sorted_wrt_map_mono[where R = "(\<le>)"]) (auto simp: sorted_upt min_def)

lemma handleUpload_final:
  assumes "selectedFile m = Some fl"
  shows "uploadProgress (fst (handleUpload ticks outcome (m, c))) =
           (case fst (uploadNote fl outcome c) of Inr v \<Rightarrow> 100 | Inl e \<Rightarrow> min (10 * ticks) 90)"
  using assms
  by (simp add: handleUpload_def handleUpload_settle_def tick_begin Let_def
      split: prod.splits sum.splits)

text \<open>
  Claim C5: a file of more than 20 MB, and a file whose MIME type is not one of the four
  allowed, is rejected when selected: the dialog is as it was but for one more
  notification (the selected file stays unset and the status idle when they were), and
  with no file selected an upload sends nothing.
\<close>

theorem file_validation:
  assumes "f_size fl > 20 * 1024 * 1024
     \<or> f_type fl \<notin> {''application/pdf'',
          ''application/vnd.openxmlformats-officedocument.wordprocessingml.document'',
          ''text/plain'', ''text/markdown''}"
  shows "(\<exists>notification. handleFileSelect fl m = m\<lparr>upload_toasts := upload_toasts m @ [notification]\<rparr>)
     \<and> selectedFile (handleFileSelect fl m) = selectedFile m
     \<and> uploadStatus (handleFileSelect fl m) = uploadStatus m
     \<and> (selectedFile m = None \<longrightarrow>
          handleUpload ticks outcome (handleFileSelect fl m, c) = (handleFileSelect fl m, c))"
  using assms
  by (auto simp add: handleFileSelect_def maxSize_def allowedTypes_def handleUpload_def)

theorem file_validation_witness:
  "handleFileSelect example_large UploadModal_initial =
     UploadModal_initial\<lparr>upload_toasts :=
       [\<lparr>t_title = ''File too large'', t_description = ''Please select a file smaller than 20MB.'',
         t_variant = Some ''destructive''\<rparr>]\<rparr>
   \<and> selectedFile (handleFileSelect example_large UploadModal_initial) = None
   \<and> selectedFile (handleFileSelect example_image UploadModal_initial) = None
   \<and> uploadStatus (handleFileSelect example_image UploadModal_initial) = status_idle
   \<and> fetched (snd (handleUpload 3 (Resolved example_uploaded)
        (handleFileSelect example_image UploadModal_initial, example_client))) = []"
proof -
  have large: "f_size example_large > 20 * 1024 * 1024
     \<or> f_type example_large \<notin> {''application/pdf'',
          ''application/vnd.openxmlformats-officedocument.wordprocessingml.document'',
          ''text/plain'', ''text/markdown''}"
    by (simp add: example_large_def)
  have image: "f_size example_image > 20 * 1024 * 1024
     \<or> f_type example_image \<notin> {''application/pdf'',
          ''application/vnd.openxmlformats-officedocument.wordprocessingml.document'',
          ''text/plain'', ''text/markdown''}"
    by (simp add: example_image_def)
  have initial: "selectedFile UploadModal_initial = None" "uploadStatus UploadModal_initial = status_idle"
    "fetched example_client = []"
    by (simp_all add: UploadModal_initial_def example_client_def constructor_def)
  have toast: "handleFileSelect example_large UploadModal_initial =
     UploadModal_initial\<lparr>upload_toasts :=
       [\<lparr>t_title = ''File too large'', t_description = ''Please select a file smaller than 20MB.'',
         t_variant = Some ''destructive''\<rparr>]\<rparr>"
    by (simp add: handleFileSelect_def example_large_def maxSize_def UploadModal_initial_def)
  from file_validation [OF large, where m = UploadModal_initial and ticks = 3
      and outcome = "Resolved example_uploaded" and c = example_client] initial
  have "selectedFile (handleFileSelect example_large UploadModal_initial) = None"
    by simp
  moreover from file_validation [OF image, where m = UploadModal_initial and ticks = 3
      and outcome = "Resolved example_uploaded" and c = example_client] initial
  have "selectedFile (handleFileSelect example_image UploadModal_initial) = None"
    and "uploadStatus (handleFileSelect example_image UploadModal_initial) = status_idle"
    and "fetched (snd (handleUpload 3 (Resolved example_uploaded)
        (handleFileSelect example_image UploadModal_initial, example_client))) = []"
    by simp_all
  ultimately show ?thesis
    using toast by simp
qed

text \<open>
  Claim C6: in an upload attempt the progress never decreases, is at most 90 while the
  upload is pending, and is 100 only in the state after the upload has resolved
  successfully (where it is 100).
\<close>

theorem upload_progress:
  assumes "selectedFile m = Some fl"
  shows "sorted (map uploadProgress (attempt_states ticks outcome (m, c)))
     \<and> (\<forall>s \<in> set (pending_states ticks m). uploadProgress s \<le> 90 \<and> uploadStatus s = status_uploading)
     \<and> attempt_states ticks outcome (m, c) =
          pending_states ticks m @ [fst (handleUpload ticks outcome (m, c))]
     \<and> (\<forall>s \<in> set (attempt_states ticks outcome (m, c)). uploadProgress s = 100 \<longrightarrow>
           s = fst (handleUpload ticks outcome (m, c)) \<and> (\<exists>v. fst (uploadNote fl outcome c) = Inr v))
     \<and> ((\<exists>v. fst (uploadNote fl outcome c) = Inr v) \<longrightarrow>
           uploadProgress (fst (handleUpload ticks outcome (m, c))) = 100)"
proof -
  let ?final = "fst (handleUpload ticks outcome (m, c))"
  have states: "attempt_states ticks outcome (m, c) = pending_states ticks m @ [?final]"
    using assms by (simp add: attempt_states_def)
  have pending: "\<forall>s \<in> set (pending_states ticks m). uploadProgress s \<le> min (10 * ticks) 90
      \<and> uploadProgress s \<le> 90 \<and> uploadStatus s = status_uploading"
    by (auto simp add: pending_states_def tick_begin simp del: upt_Suc)
  have final: "min (10 * ticks) 90 \<le> uploadProgress ?final"
    by (auto simp add: handleUpload_final[OF assms] min_def split: sum.splits)
  have "sorted (map uploadProgress (pending_states ticks m))"
    by (simp only: pending_progress sorted_pending)
  with pending final have mono: "sorted (map uploadProgress (attempt_states ticks outcome (m, c)))"
    by (simp only: states map_append sorted_append) fastforce
  have hundred: "\<forall>s \<in> set (attempt_states ticks outcome (m, c)). uploadProgress s = 100 \<longrightarrow>
      s = ?final \<and> (\<exists>v. fst (uploadNote fl outcome c) = Inr v)"
  proof (intro ballI impI)
    fix s assume s: "s \<in> set (attempt_states ticks outcome (m, c))" and p: "uploadProgress s = 100"
    from s states pending p have "s = ?final" by fastforce
    moreover from this p handleUpload_final[OF assms, of ticks outcome c]
    have "\<exists>v. fst (uploadNote fl outcome c) = Inr v"
      by (cases "fst (uploadNote fl outcome c)") (simp_all add: min_def split: if_splits)
    ultimately show "s = ?final \<and> (\<exists>v. fst (uploadNote fl outcome c) = Inr v)" by simp
  qed
  have success: "(\<exists>v. fst (uploadNote fl outcome c) = Inr v) \<longrightarrow> uploadProgress ?final = 100"
    by (auto simp add: handleUpload_final[OF assms])
  from mono pending states hundred success show ?thesis by blast
qed

theorem upload_progress_witness:
  "map uploadProgress (attempt_states 11 (Resolved example_uploaded)
      (UploadModal_initial\<lparr>selectedFile := Some example_file\<rparr>, example_client))
     = [0, 10, 20, 30, 40, 50, 60, 70, 80, 90, 90, 90, 100]
   \<and> sorted (map uploadProgress (attempt_states 11 (Resolved example_uploaded)
      (UploadModal_initial\<lparr>selectedFile := Some example_file\<rparr>, example_client)))
   \<and> map uploadProgress (attempt_states 2 (Resolved (example_unavailable :: unit response))
      (UploadModal_initial\<lparr>selectedFile := Some example_file\<rparr>, example_client))
     = [0, 10, 20, 20]"
proof -
  let ?m = "UploadModal_initial\<lparr>selectedFile := Some example_file\<rparr>"
  have sel: "selectedFile ?m = Some example_file"
    by simp
  have pending: "map uploadProgress (pending_states 11 ?m) = [0, 10, 20, 30, 40, 50, 60, 70, 80, 90, 90, 90]"
    "map uploadProgress (pending_states 2 ?m) = [0, 10, 20]"
    unfolding pending_progress by code_simp+
  have settled: "uploadProgress (fst (handleUpload 11 (Resolved example_uploaded) (?m, example_client))) = 100"
    "uploadProgress (fst (handleUpload 2 (Resolved (example_unavailable :: unit response))
        (?m, example_client))) = 20"
    by (simp_all add: handleUpload_final[OF sel] uploadNote_def Let_def ok_def
        example_uploaded_def example_unavailable_def)
  note inst = upload_progress [OF sel, where ticks = 11 and outcome = "Resolved example_uploaded"
      and c = example_client]
  from inst have sorted: "sorted (map uploadProgress (attempt_states 11 (Resolved example_uploaded)
      (?m, example_client)))"
    by (rule conjunct1)
  from pending settled sorted show ?thesis
    by (simp add: attempt_states_def)
qed

end
